theory Spec2Isabelle
  imports Complex_Main
begin

section \<open>QtWaves: waveform synthesis, mixing and spectrum\<close>

text \<open>
  A shallow embedding of \<^verbatim>\<open>mutils.py\<close> (\<^verbatim>\<open>WaveInfo\<close>, the four generators,
  \<^verbatim>\<open>get_fft\<close>) and of the wave-related state of \<^verbatim>\<open>main.py\<close>
  (\<^verbatim>\<open>PyQtLayout\<close>: \<^verbatim>\<open>addWave\<close>, \<^verbatim>\<open>update_plot\<close>, \<^verbatim>\<open>clear_wave_files\<close>,
  \<^verbatim>\<open>plot_all_toggle\<close>).

  Samples are numpy \<^verbatim>\<open>float64\<close> values in the program. They are modelled by \<^typ>\<open>real\<close>:
  the embedding gives the exact value that each floating-point operation approximates,
  and has no NaN and no infinity. Where a claim is about the values of the samples, the
  rendering is modelled a second time (\<open>gen_wave_f64\<close>) with the NaN that float64 produces
  when the phase overflows. Python integers are \<^typ>\<open>int\<close>, array lengths are
  \<^typ>\<open>nat\<close>. Exceptions are values of the type \<open>error\<close>; a function that can raise
  returns \<open>error + 'a\<close>, with \<open>Inl\<close> for the exception.
\<close>

subsection \<open>Exceptions\<close>

datatype error =
    KeyError string
  | ValueError
  | ZeroDivisionError

subsection \<open>The numpy and scipy operations that the program calls\<close>

text \<open>
  \<^verbatim>\<open>np.linspace(start, stop, num, endpoint=False)\<close>: a negative \<^verbatim>\<open>num\<close> raises
  \<^verbatim>\<open>ValueError\<close>; otherwise the result is \<^verbatim>\<open>arange(0, num) * step + start\<close> with
  \<^verbatim>\<open>step = (stop - start) / num\<close>, and \<^verbatim>\<open>arange(0, num) * (stop - start) + start\<close>
  (the empty array) when \<^verbatim>\<open>num\<close> is 0.
\<close>

definition linspace :: "real \<Rightarrow> real \<Rightarrow> int \<Rightarrow> error + real list" where
  "linspace start stop num =
     (if num < 0 then Inl ValueError
      else
        let dv = num; delta = stop - start in
        if dv > 0 then
          let step = delta / real_of_int dv in
          Inr (map (\<lambda>k. real k * step + start) [0..<nat num])
        else Inr (map (\<lambda>k. real k * delta + start) [0..<nat num]))"

text \<open>\<^verbatim>\<open>np.mod(x, y)\<close>: the remainder of the floored division.\<close>

definition np_mod :: "real \<Rightarrow> real \<Rightarrow> real" where
  "np_mod x y = x - y * of_int \<lfloor>x / y\<rfloor>"

text \<open>
  \<^verbatim>\<open>scipy.signal.sawtooth(t, width)\<close> at one time point: with \<^verbatim>\<open>tmod = mod(t, 2*pi)\<close>,
  the value is \<^verbatim>\<open>tmod / (pi*w) - 1\<close> where \<^verbatim>\<open>tmod < w*2*pi\<close> and
  \<^verbatim>\<open>(pi*(w+1) - tmod) / (pi*(1-w))\<close> elsewhere. (A width outside [0, 1] gives NaN in
  scipy; the program passes only the default 1 and 0.5.)
\<close>

definition sawtooth_at :: "real \<Rightarrow> real \<Rightarrow> real" where
  "sawtooth_at w t =
     (let tmod = np_mod t (2 * pi) in
      if tmod < w * 2 * pi then tmod / (pi * w) - 1
      else (pi * (w + 1) - tmod) / (pi * (1 - w)))"

definition sawtooth :: "real list \<Rightarrow> real \<Rightarrow> real list" where
  "sawtooth t w = map (sawtooth_at w) t"

text \<open>
  \<^verbatim>\<open>scipy.signal.square(t, duty)\<close> at one time point: 1 where
  \<^verbatim>\<open>mod(t, 2*pi) < duty*2*pi\<close>, and -1 elsewhere.
\<close>

definition square_at :: "real \<Rightarrow> real \<Rightarrow> real" where
  "square_at w t =
     (let tmod = np_mod t (2 * pi) in
      if tmod < w * 2 * pi then 1 else - 1)"

definition square :: "real list \<Rightarrow> real \<Rightarrow> real list" where
  "square t w = map (square_at w) t"

text \<open>
  \<^verbatim>\<open>np.fft.rfft(a)\<close>: the coefficients 0 .. n div 2 of the discrete Fourier transform
  \<^verbatim>\<open>A[k] = sum_m a[m] * exp(-2*pi*i*m*k/n)\<close> of the n real inputs; an empty input raises
  \<^verbatim>\<open>ValueError\<close>.
\<close>

definition dft_coeff :: "real list \<Rightarrow> nat \<Rightarrow> complex" where
  "dft_coeff a k =
     (\<Sum>m<length a. complex_of_real (a ! m) * cis (- (2 * pi * real m * real k / real (length a))))"

definition rfft :: "real list \<Rightarrow> error + complex list" where
  "rfft a =
     (if length a = 0 then Inl ValueError
      else Inr (map (dft_coeff a) [0..<length a div 2 + 1]))"

text \<open>
  \<^verbatim>\<open>np.fft.rfftfreq(n, d)\<close>: \<^verbatim>\<open>val = 1.0 / (n * d)\<close>, then
  \<^verbatim>\<open>arange(0, n // 2 + 1) * val\<close>; the division raises when \<^verbatim>\<open>n * d\<close> is 0.
\<close>

definition rfftfreq :: "nat \<Rightarrow> real \<Rightarrow> error + real list" where
  "rfftfreq n d =
     (if real n * d = 0 then Inl ZeroDivisionError
      else
        let val = 1 / (real n * d) in
        Inr (map (\<lambda>k. real k * val) [0..<n div 2 + 1]))"

subsection \<open>\<^verbatim>\<open>mutils.py\<close>\<close>

record WaveInfo =
  shape :: string
  duration :: int
  freq :: real
  amplitude :: real

definition genSine :: "real \<Rightarrow> real list \<Rightarrow> real list" where
  "genSine f t = map (\<lambda>x. sin (2 * pi * f * x)) t"

definition genTriangle :: "real \<Rightarrow> real list \<Rightarrow> real list" where
  "genTriangle f t = sawtooth (map (\<lambda>x. 2 * pi * f * x) t) 0.5"

definition genSawtooth :: "real \<Rightarrow> real list \<Rightarrow> real list" where
  "genSawtooth f t = sawtooth (map (\<lambda>x. 2 * pi * f * x) t) 1"

definition genSquare :: "real \<Rightarrow> real list \<Rightarrow> real list" where
  "genSquare f t = square (map (\<lambda>x. 2 * pi * f * x) t) 0.5"

text \<open>The dictionary \<^verbatim>\<open>waveGens\<close> of \<^verbatim>\<open>gen_wave\<close>.\<close>

definition waveGens :: "string \<rightharpoonup> (real \<Rightarrow> real list \<Rightarrow> real list)" where
  "waveGens =
     map_of [(''sine'', genSine), (''sawtooth'', genSawtooth),
             (''square'', genSquare), (''triangle'', genTriangle)]"

text \<open>
  \<^verbatim>\<open>WaveInfo.gen_wave(self, rate)\<close>. The time axis is built first (line 17), so a
  negative \<^verbatim>\<open>duration*rate\<close> raises \<^verbatim>\<open>ValueError\<close> before the shape is looked up;
  the lookup of an unknown shape (line 18) raises \<^verbatim>\<open>KeyError\<close>.
\<close>

definition gen_wave :: "WaveInfo \<Rightarrow> int \<Rightarrow> error + real list" where
  "gen_wave self r =
     (case linspace 0 (real_of_int (duration self)) (duration self * r) of
        Inl e \<Rightarrow> Inl e
      | Inr t \<Rightarrow>
          (case waveGens (shape self) of
             None \<Rightarrow> Inl (KeyError (shape self))
           | Some gen \<Rightarrow> Inr (map (\<lambda>x. x * amplitude self) (gen (freq self) t))))"

text \<open>
  \<^verbatim>\<open>get_fft(sampFreq, sound)\<close>. \<^verbatim>\<open>sound.shape[0] / sampFreq\<close> (line 40) divides two
  Python numbers and raises for \<^verbatim>\<open>sampFreq = 0\<close>; the array \<^verbatim>\<open>time\<close> of line 41 is
  never used. The result is the pair \<^verbatim>\<open>(freq, fft_spectrum_abs)\<close>.
\<close>

definition get_fft :: "int \<Rightarrow> real list \<Rightarrow> error + (real list \<times> real list)" where
  "get_fft sampFreq sound =
     (let sound = map (\<lambda>x. x / 2 ^ 31) sound in
      if sampFreq = 0 then Inl ZeroDivisionError
      else
        (case rfft sound of
           Inl e \<Rightarrow> Inl e
         | Inr fft_spectrum \<Rightarrow>
             (case rfftfreq (length sound) (1 / real_of_int sampFreq) of
                Inl e \<Rightarrow> Inl e
              | Inr fr \<Rightarrow> Inr (fr, map cmod fft_spectrum))))"

subsection \<open>\<^verbatim>\<open>gen_wave\<close> where float64 leaves the real numbers\<close>

text \<open>
  The real numbers describe a sample only while the phase \<^verbatim>\<open>2*np.pi*freq*t\<close> is a finite
  float64 number. The definitions of this subsection follow the same lines of
  \<^verbatim>\<open>mutils.py\<close> and add what float64 does outside that range. A sample is a number or
  the float64 value NaN.
\<close>

datatype sample = Val real | NaN

text \<open>
  A float64 product overflows to an infinity when its magnitude reaches
  \<open>2^1024 - 2^970\<close>, the rounding boundary above the largest finite value
  \<open>(2 - 2^-52) * 2^1023\<close>. The boundary is tested on the exact product; the rounded
  factors differ from the exact ones by a relative \<open>2^-52\<close> or so.
\<close>

definition f64_overflow :: "real \<Rightarrow> bool" where
  "f64_overflow x = (2 ^ 1024 - 2 ^ 970 \<le> \<bar>x\<bar>)"

text \<open>
  The phase \<^verbatim>\<open>2*np.pi*freq*t\<close> at one time point, evaluated from the left: first
  \<^verbatim>\<open>2*np.pi*freq\<close>, then its product with \<^verbatim>\<open>t\<close>. \<open>None\<close> stands for a phase that is not
  finite: an infinite factor times \<^verbatim>\<open>t\<close> is an infinity, or NaN for \<^verbatim>\<open>t = 0\<close>.
\<close>

definition phase_f64 :: "real \<Rightarrow> real \<Rightarrow> real option" where
  "phase_f64 f x =
     (let c = 2 * pi * f in
      if f64_overflow c then None
      else if f64_overflow (c * x) then None
      else Some (c * x))"

text \<open>
  \<^verbatim>\<open>np.mod(p, 2*pi)\<close> in float64. For a negative \<^verbatim>\<open>p\<close> it is \<^verbatim>\<open>fmod(p, 2*pi) + 2*pi\<close>,
  rounded: a sum within \<open>2^-51\<close> (half the spacing of float64 between 4 and 8) below
  \<^verbatim>\<open>2*pi\<close> rounds to \<^verbatim>\<open>2*pi\<close> itself. For \<^verbatim>\<open>p \<ge> 0\<close> the remainder is exact.
\<close>

definition mod_f64 :: "real \<Rightarrow> real" where
  "mod_f64 p =
     (let m = np_mod p (2 * pi) in
      if p < 0 \<and> 2 * pi - m \<le> 1 / 2 ^ 51 then 2 * pi else m)"

text \<open>
  \<^verbatim>\<open>np.sin\<close> of an infinite or NaN phase is NaN.
\<close>

definition sin_f64 :: "real option \<Rightarrow> sample" where
  "sin_f64 ph = (case ph of None \<Rightarrow> NaN | Some p \<Rightarrow> Val (sin p))"

text \<open>
  \<^verbatim>\<open>scipy.signal.sawtooth\<close> at one phase. For a phase that is not finite, \<^verbatim>\<open>tmod\<close> is NaN,
  the comparison \<^verbatim>\<open>tmod < w*2*pi\<close> is false and the second formula gives NaN. With
  width 1 the second formula is reached only for \<^verbatim>\<open>tmod = 2*pi\<close> and divides 0 by 0.
\<close>

definition sawtooth_f64_at :: "real \<Rightarrow> real option \<Rightarrow> sample" where
  "sawtooth_f64_at w ph =
     (case ph of
        None \<Rightarrow> NaN
      | Some p \<Rightarrow>
          let tmod = mod_f64 p in
          if tmod < w * 2 * pi then Val (tmod / (pi * w) - 1)
          else if pi * (1 - w) = 0 then NaN
          else Val ((pi * (w + 1) - tmod) / (pi * (1 - w))))"

text \<open>
  \<^verbatim>\<open>scipy.signal.square\<close> at one phase. For a phase that is not finite the comparison
  is false, and the sample is -1.
\<close>

definition square_f64_at :: "real \<Rightarrow> real option \<Rightarrow> sample" where
  "square_f64_at w ph =
     (case ph of
        None \<Rightarrow> Val (- 1)
      | Some p \<Rightarrow> if mod_f64 p < w * 2 * pi then Val 1 else Val (- 1))"

text \<open>
  The four generators, the dictionary and \<^verbatim>\<open>gen_wave\<close> over these samples.
  \<^verbatim>\<open>np.multiply\<close> keeps NaN.
\<close>

definition genSine_f64 :: "real \<Rightarrow> real list \<Rightarrow> sample list" where
  "genSine_f64 f t = map (\<lambda>x. sin_f64 (phase_f64 f x)) t"

definition genTriangle_f64 :: "real \<Rightarrow> real list \<Rightarrow> sample list" where
  "genTriangle_f64 f t = map (\<lambda>x. sawtooth_f64_at 0.5 (phase_f64 f x)) t"

definition genSawtooth_f64 :: "real \<Rightarrow> real list \<Rightarrow> sample list" where
  "genSawtooth_f64 f t = map (\<lambda>x. sawtooth_f64_at 1 (phase_f64 f x)) t"

definition genSquare_f64 :: "real \<Rightarrow> real list \<Rightarrow> sample list" where
  "genSquare_f64 f t = map (\<lambda>x. square_f64_at 0.5 (phase_f64 f x)) t"

definition waveGens_f64 :: "string \<rightharpoonup> (real \<Rightarrow> real list \<Rightarrow> sample list)" where
  "waveGens_f64 =
     map_of [(''sine'', genSine_f64), (''sawtooth'', genSawtooth_f64),
             (''square'', genSquare_f64), (''triangle'', genTriangle_f64)]"

definition multiply_f64 :: "sample \<Rightarrow> real \<Rightarrow> sample" where
  "multiply_f64 s a = (case s of NaN \<Rightarrow> NaN | Val x \<Rightarrow> Val (x * a))"

definition gen_wave_f64 :: "WaveInfo \<Rightarrow> int \<Rightarrow> error + sample list" where
  "gen_wave_f64 self r =
     (case linspace 0 (real_of_int (duration self)) (duration self * r) of
        Inl e \<Rightarrow> Inl e
      | Inr t \<Rightarrow>
          (case waveGens_f64 (shape self) of
             None \<Rightarrow> Inl (KeyError (shape self))
           | Some gen \<Rightarrow> Inr (map (\<lambda>s. multiply_f64 s (amplitude self)) (gen (freq self) t))))"

subsection \<open>\<^verbatim>\<open>main.py\<close>: the wave-related state of \<^verbatim>\<open>PyQtLayout\<close>\<close>

text \<open>
  The attributes set up under "Wave related setup" in \<^verbatim>\<open>__init__\<close>. The file name in
  \<^verbatim>\<open>current_wave\<close> is kept without its directory. Widgets, the canvas, the media player
  and the files on disk are not part of the model.
\<close>

record PyQtLayout =
  current_wave :: string
  max_dur :: int
  wave_objects :: "WaveInfo list"
  rate :: int
  plot_all :: bool

definition init_layout :: PyQtLayout where
  "init_layout =
     \<lparr>current_wave = '''', max_dur = 3, wave_objects = [], rate = 44100, plot_all = False\<rparr>"

text \<open>What one run of \<^verbatim>\<open>update_plot\<close> hands to the plots and to the audio file.\<close>

record plot_data =
  max_t :: "real list"
  curves :: "real list list"
  final_vec :: "real list"
  fft_x :: "real list"
  fft_y :: "real list"

text \<open>\<^verbatim>\<open>str(n)\<close> for a length.\<close>

fun str_nat :: "nat \<Rightarrow> string" where
  "str_nat n =
     (if n < 10 then [char_of (48 + n)]
      else str_nat (n div 10) @ [char_of (48 + n mod 10)])"

declare str_nat.simps [simp del]

text \<open>
  \<^verbatim>\<open>final_vec += current\<close>: elementwise for equal lengths; a one-element \<^verbatim>\<open>current\<close>
  is broadcast; any other pair of lengths raises \<^verbatim>\<open>ValueError\<close>.
\<close>

definition iadd :: "real list \<Rightarrow> real list \<Rightarrow> error + real list" where
  "iadd fv current =
     (if length current = length fv then Inr (map2 (+) fv current)
      else if length current = 1 then Inr (map (\<lambda>x. x + current ! 0) fv)
      else Inl ValueError)"

text \<open>
  The loop \<^verbatim>\<open>for v in self.wave_objects\<close> of \<^verbatim>\<open>update_plot\<close> (lines 107 to 118).
  The accumulator is the list of curves plotted so far and \<^verbatim>\<open>final_vec\<close>.
  \<^verbatim>\<open>axes.plot(max_t, current)\<close> raises \<^verbatim>\<open>ValueError\<close> when the two lengths differ.
\<close>

fun accumulate ::
  "int \<Rightarrow> bool \<Rightarrow> WaveInfo list \<Rightarrow> real list list \<times> real list \<Rightarrow> error + (real list list \<times> real list)"
where
  "accumulate r pa [] acc = Inr acc"
| "accumulate r pa (v # vs) (cs, fv) =
     (case gen_wave v r of
        Inl e \<Rightarrow> Inl e
      | Inr generated \<Rightarrow>
          let current =
                (if length generated < length fv
                 then generated @ replicate (length fv - length generated) 0
                 else generated)
          in
          if pa \<and> length current \<noteq> length fv then Inl ValueError
          else
            (case iadd fv current of
               Inl e \<Rightarrow> Inl e
             | Inr fv' \<Rightarrow> accumulate r pa vs (if pa then cs @ [current] else cs, fv')))"

text \<open>
  \<^verbatim>\<open>update_plot\<close>. With no wave it only redraws. Otherwise it builds the time axis and
  the accumulator, runs the loop, takes the spectrum and records the new file name. An
  exception leaves the attributes as they were: \<^verbatim>\<open>current_wave\<close> is assigned after
  the last statement that can raise (\<^verbatim>\<open>OSError\<close> from \<^verbatim>\<open>wavio.write\<close> is caught).
\<close>

definition update_plot :: "PyQtLayout \<Rightarrow> error + (PyQtLayout \<times> plot_data option)" where
  "update_plot self =
     (if wave_objects self = [] then Inr (self, None)
      else
        (case linspace 0 (real_of_int (max_dur self)) (max_dur self * rate self) of
           Inl e \<Rightarrow> Inl e
         | Inr mt \<Rightarrow>
             (case accumulate (rate self) (plot_all self) (wave_objects self)
                     ([], map (\<lambda>x. 0 * x) mt) of
                Inl e \<Rightarrow> Inl e
              | Inr (cs, fv) \<Rightarrow>
                  (case get_fft (rate self) fv of
                     Inl e \<Rightarrow> Inl e
                   | Inr (x, y) \<Rightarrow>
                       Inr (self\<lparr>current_wave :=
                                   ''wave_sum_'' @ str_nat (length (wave_objects self)) @ ''.wav''\<rparr>,
                            Some \<lparr>max_t = mt, curves = cs, final_vec = fv,
                                  fft_x = x, fft_y = y\<rparr>)))))"

text \<open>
  An event handler changes the attributes and then calls \<^verbatim>\<open>update_plot\<close> (and
  \<^verbatim>\<open>tableSetup\<close>, which only fills the table widget). When that
  call raises, the changes made before it stay: the handler's result is the state it
  leaves together with the outcome of \<^verbatim>\<open>update_plot\<close>.
\<close>

definition then_update_plot ::
  "PyQtLayout \<Rightarrow> PyQtLayout \<times> (error + plot_data option)" where
  "then_update_plot self =
     (case update_plot self of
        Inl e \<Rightarrow> (self, Inl e)
      | Inr (self', out) \<Rightarrow> (self', Inr out))"

text \<open>
  \<^verbatim>\<open>addWave\<close>. The argument is the outcome of reading the four input fields:
  \<open>None\<close> when one of the conversions raises (the handler returns at once), otherwise
  the frequency, duration, shape and amplitude.
\<close>

definition addWave ::
  "PyQtLayout \<Rightarrow> (real \<times> int \<times> string \<times> real) option \<Rightarrow> PyQtLayout \<times> (error + plot_data option)"
where
  "addWave self inputs =
     (case inputs of
        None \<Rightarrow> (self, Inr None)
      | Some (frequency, dur, shp, amp) \<Rightarrow>
          let self1 = (if dur > max_dur self then self\<lparr>max_dur := dur\<rparr> else self);
              self2 = self1\<lparr>wave_objects := wave_objects self1 @
                        [\<lparr>shape = shp, duration = dur, freq = frequency, amplitude = amp\<rparr>]\<rparr>
          in then_update_plot self2)"

text \<open>\<^verbatim>\<open>clear_wave_files\<close>: the \<^verbatim>\<open>finally\<close> block always runs.\<close>

definition clear_wave_files :: "PyQtLayout \<Rightarrow> PyQtLayout \<times> (error + plot_data option)" where
  "clear_wave_files self = then_update_plot (self\<lparr>wave_objects := []\<rparr>)"

text \<open>\<^verbatim>\<open>plot_all_toggle\<close>, with the state of the check box.\<close>

definition plot_all_toggle ::
  "PyQtLayout \<Rightarrow> bool \<Rightarrow> PyQtLayout \<times> (error + plot_data option)" where
  "plot_all_toggle self checked = then_update_plot (self\<lparr>plot_all := checked\<rparr>)"

subsection \<open>Sessions\<close>

text \<open>
  The user's actions that reach the wave state: the buttons "Add Wave" and "Reset", and
  the check box "Plot all waves". ("Play" only reads \<^verbatim>\<open>current_wave\<close>.) A session is a
  list of actions run from the initial state. An exception that leaves a handler does
  not undo the handler's assignments, so the session goes on from the state the handler
  left; a session that ends at the exception is a prefix of such a session.
\<close>

datatype action =
    AddWave "(real \<times> int \<times> string \<times> real) option"
  | Reset
  | PlotAll bool

fun handle :: "PyQtLayout \<Rightarrow> action \<Rightarrow> PyQtLayout \<times> (error + plot_data option)" where
  "handle self (AddWave inputs) = addWave self inputs"
| "handle self Reset = clear_wave_files self"
| "handle self (PlotAll checked) = plot_all_toggle self checked"

definition session :: "action list \<Rightarrow> PyQtLayout" where
  "session acts = foldl (\<lambda>s a. fst (handle s a)) init_layout acts"

text \<open>The durations of the waves that a session has added, in order.\<close>

fun added_durations :: "action list \<Rightarrow> int list" where
  "added_durations [] = []"
| "added_durations (AddWave (Some (f, d, sh, a)) # acts) = d # added_durations acts"
| "added_durations (_ # acts) = added_durations acts"

text \<open>The aggregate buffer of one run of \<^verbatim>\<open>update_plot\<close>, when it makes one.\<close>

definition mixed :: "PyQtLayout \<Rightarrow> real list option" where
  "mixed self =
     (case update_plot self of
        Inr (_, Some out) \<Rightarrow> Some (final_vec out)
      | _ \<Rightarrow> None)"

section \<open>Properties\<close>

subsection \<open>Rendering one wave\<close>

lemma linspace_ok:
  "0 \<le> num \<Longrightarrow>
   linspace a b num = Inr (map (\<lambda>k. real k * ((b - a) / real_of_int num) + a) [0..<nat num])"
  by (cases "num = 0") (simp_all add: linspace_def Let_def)

lemma linspace_neg: "num < 0 \<Longrightarrow> linspace a b num = Inl ValueError"
  by (simp add: linspace_def)

lemma time_axis:
  assumes "0 < d" "0 < r"
  shows "linspace 0 (real_of_int d) (d * r) = Inr (map (\<lambda>k. real k / real_of_int r) [0..<nat (d * r)])"
proof -
  have "0 \<le> d * r" using assms by simp
  then have "linspace 0 (real_of_int d) (d * r) =
      Inr (map (\<lambda>k. real k * ((real_of_int d - 0) / real_of_int (d * r)) + 0) [0..<nat (d * r)])"
    by (rule linspace_ok)
  moreover have "(real_of_int d - 0) / real_of_int (d * r) = 1 / real_of_int r"
    using assms by simp
  ultimately show ?thesis by simp
qed

lemma waveGens_simps:
  "waveGens ''sine'' = Some genSine"
  "waveGens ''sawtooth'' = Some genSawtooth"
  "waveGens ''square'' = Some genSquare"
  "waveGens ''triangle'' = Some genTriangle"
  by (simp_all add: waveGens_def)

lemma waveGens_None:
  "s \<notin> {''sine'', ''sawtooth'', ''square'', ''triangle''} \<Longrightarrow> waveGens s = None"
  by (simp add: waveGens_def)

lemma waveGens_Some:
  "waveGens s = Some gen \<Longrightarrow>
     gen \<in> {genSine, genSawtooth, genSquare, genTriangle} \<and> s \<in> {''sine'', ''sawtooth'', ''square'', ''triangle''}"
  by (auto simp: waveGens_def split: if_splits)

lemma length_gen:
  "gen \<in> {genSine, genSawtooth, genSquare, genTriangle} \<Longrightarrow> length (gen f t) = length t"
  by (auto simp: genSine_def genSawtooth_def genSquare_def genTriangle_def sawtooth_def square_def)

lemma np_mod_range: "0 \<le> np_mod t (2 * pi) \<and> np_mod t (2 * pi) < 2 * pi"
proof -
  define y :: real where "y = 2 * pi"
  define q where "q = t / y"
  have p: "0 < y" by (simp add: y_def)
  have t: "t = y * q" using p by (simp add: q_def)
  have "y * of_int \<lfloor>q\<rfloor> \<le> y * q"
    using p by (intro mult_left_mono) simp_all
  moreover have "y * q < y * (of_int \<lfloor>q\<rfloor> + 1)"
    using p by (intro mult_strict_left_mono) linarith+
  ultimately have "0 \<le> t - y * of_int \<lfloor>q\<rfloor> \<and> t - y * of_int \<lfloor>q\<rfloor> < y"
    unfolding t by (simp add: algebra_simps)
  then show ?thesis by (simp add: np_mod_def y_def q_def)
qed

lemma sawtooth_1_range: "- 1 \<le> sawtooth_at 1 t \<and> sawtooth_at 1 t \<le> 1"
  using np_mod_range [of t] pi_gt_zero
  by (simp add: sawtooth_at_def Let_def field_simps)

lemma sawtooth_half_range: "- 1 \<le> sawtooth_at 0.5 t \<and> sawtooth_at 0.5 t \<le> 1"
  using np_mod_range [of t] pi_gt_zero
  by (simp add: sawtooth_at_def Let_def field_simps)

lemma square_range: "- 1 \<le> square_at w t \<and> square_at w t \<le> 1"
  by (simp add: square_at_def Let_def)

lemma gen_range:
  assumes "gen \<in> {genSine, genSawtooth, genSquare, genTriangle}" "u \<in> set (gen f t)"
  shows "- 1 \<le> u \<and> u \<le> 1"
  using assms sawtooth_1_range sawtooth_half_range square_range
  by (auto simp: genSine_def genSawtooth_def genSquare_def genTriangle_def sawtooth_def square_def)


lemma gen_wave_known:
  assumes "waveGens (shape w) = Some gen" "0 \<le> duration w * r"
  shows "gen_wave w r =
    Inr (map (\<lambda>x. x * amplitude w)
          (gen (freq w) (map (\<lambda>k. real k * ((real_of_int (duration w) - 0) / real_of_int (duration w * r)) + 0)
             [0..<nat (duration w * r)])))"
  using assms by (simp add: gen_wave_def linspace_ok)

text \<open>
  Claim C1. For a wave of one of the four shapes, of duration \<open>D > 0\<close>, rendered at a
  rate \<open>R > 0\<close>, \<^verbatim>\<open>gen_wave\<close> returns a buffer of exactly \<open>D * R\<close> samples: the
  shape's generator applied to the time points \<open>k / R\<close> for \<open>k < D * R\<close>, scaled by the
  amplitude. Every time point lies in the half-open interval from 0 to \<open>D\<close>.
\<close>

theorem gen_wave_length_and_time_base:
  assumes "shape w \<in> {''sine'', ''sawtooth'', ''square'', ''triangle''}"
    and "0 < duration w" and "0 < r"
  shows "\<exists>gen buf.
           waveGens (shape w) = Some gen \<and>
           gen_wave w r = Inr buf \<and>
           buf = map (\<lambda>x. x * amplitude w)
                   (gen (freq w) (map (\<lambda>k. real k / real_of_int r) [0..<nat (duration w * r)])) \<and>
           length buf = nat (duration w) * nat r \<and>
           (\<forall>k < length buf. 0 \<le> real k / real_of_int r \<and>
                              real k / real_of_int r < real_of_int (duration w))"
proof -
  from assms(1) obtain gen where g: "waveGens (shape w) = Some gen"
    by (auto simp: waveGens_simps)
  let ?t = "map (\<lambda>k. real k / real_of_int r) [0..<nat (duration w * r)]"
  let ?buf = "map (\<lambda>x. x * amplitude w) (gen (freq w) ?t)"
  have run: "gen_wave w r = Inr ?buf"
    using g assms(2,3) by (simp add: gen_wave_def time_axis)
  have len: "length ?buf = nat (duration w) * nat r"
    using waveGens_Some [OF g] assms(2,3) by (simp add: length_gen nat_mult_distrib)
  have "real k / real_of_int r < real_of_int (duration w)" if "k < nat (duration w) * nat r" for k
  proof -
    have "int k < int (nat (duration w) * nat r)" using that by (simp only: of_nat_less_iff)
    also have "\<dots> = duration w * r" using assms(2,3) by simp
    finally have "real_of_int (int k) < real_of_int (duration w * r)"
      by (simp only: of_int_less_iff)
    then have "real k < real_of_int (duration w) * real_of_int r" by simp
    then show ?thesis using assms(3) by (simp add: field_simps)
  qed
  moreover have "0 \<le> real k / real_of_int r" for k
    using assms(3) by simp
  ultimately show ?thesis using g run len by (metis (no_types, lifting))
qed

text \<open>
  One second of a sine wave at 44100 samples a second has 44100 samples.
\<close>

theorem gen_wave_length_and_time_base_witness:
  "map_sum id length
     (gen_wave \<lparr>shape = ''sine'', duration = 1, freq = 440, amplitude = 1\<rparr> 44100) = Inr 44100"
  using gen_wave_length_and_time_base
          [of "\<lparr>shape = ''sine'', duration = 1, freq = 440, amplitude = 1\<rparr>" 44100]
  by auto

lemma f64_overflow_in_range: "\<bar>x\<bar> \<le> 2 ^ 1023 \<Longrightarrow> \<not> f64_overflow x"
proof -
  assume a: "\<bar>x\<bar> \<le> 2 ^ 1023"
  have "(2::real) ^ 1023 < 2 ^ 1024 - 2 ^ 970" by simp
  with a have "\<bar>x\<bar> < 2 ^ 1024 - 2 ^ 970" by (rule le_less_trans)
  then show ?thesis unfolding f64_overflow_def by (simp only: not_le)
qed

lemma phase_f64_in_range:
  assumes "\<bar>2 * pi * f\<bar> \<le> 2 ^ 1023" "\<bar>2 * pi * f * x\<bar> \<le> 2 ^ 1023"
  shows "phase_f64 f x = Some (2 * pi * f * x)"
  using f64_overflow_in_range [OF assms(1)] f64_overflow_in_range [OF assms(2)]
  by (simp add: phase_f64_def Let_def)

lemma mod_f64_nonneg: "0 \<le> p \<Longrightarrow> mod_f64 p = np_mod p (2 * pi)"
  by (simp add: mod_f64_def Let_def)

lemma sin_f64_in_range: "sin_f64 (Some p) = Val (sin p)"
  by (simp add: sin_f64_def)

lemma sawtooth_f64_1_in_range: "0 \<le> p \<Longrightarrow> sawtooth_f64_at 1 (Some p) = Val (sawtooth_at 1 p)"
  using np_mod_range [of p]
  by (simp add: sawtooth_f64_at_def sawtooth_at_def mod_f64_nonneg Let_def)

lemma sawtooth_f64_half_in_range:
  "0 \<le> p \<Longrightarrow> sawtooth_f64_at 0.5 (Some p) = Val (sawtooth_at 0.5 p)"
  by (simp add: sawtooth_f64_at_def sawtooth_at_def mod_f64_nonneg Let_def)

lemma square_f64_in_range: "0 \<le> p \<Longrightarrow> square_f64_at w (Some p) = Val (square_at w p)"
  by (simp add: square_f64_at_def square_at_def mod_f64_nonneg Let_def)


lemma time_axis_range:
  assumes t: "linspace 0 (real_of_int d) (d * r) = Inr t" and r: "0 < r" and x: "x \<in> set t"
  shows "0 \<le> x \<and> x < real_of_int d \<and> 1 \<le> d"
proof -
  have nn: "0 \<le> d * r" using t by (auto simp: linspace_def split: if_splits)
  have d0: "d \<noteq> 0" using t x by (auto simp: linspace_def)
  have "0 \<le> d" using nn r by (simp add: zero_le_mult_iff)
  then have d: "0 < d" using d0 by simp
  have "t = map (\<lambda>k. real k / real_of_int r) [0..<nat (d * r)]"
    using t time_axis [OF d r] by simp
  then obtain k where k: "k < nat (d * r)" and xk: "x = real k / real_of_int r"
    using x by auto
  have "int k < d * r" using k by simp
  then have "real_of_int (int k) < real_of_int (d * r)" by (simp only: of_int_less_iff)
  then have "real k < real_of_int d * real_of_int r" by simp
  then have "x < real_of_int d" using r by (simp add: xk field_simps)
  moreover have "0 \<le> x" using r by (simp add: xk)
  ultimately show ?thesis using d by simp
qed

lemma waveGens_f64_Some:
  assumes "waveGens_f64 s = Some g"
  shows "(s = ''sine'' \<and> g = genSine_f64) \<or> (s = ''sawtooth'' \<and> g = genSawtooth_f64) \<or>
         (s = ''square'' \<and> g = genSquare_f64) \<or> (s = ''triangle'' \<and> g = genTriangle_f64)"
  using assms by (auto simp: waveGens_f64_def split: if_splits)

lemma gens_f64_in_range:
  assumes g: "waveGens_f64 s = Some g"
    and c: "\<bar>2 * pi * f\<bar> \<le> 2 ^ 1023"
    and ph: "\<forall>x \<in> set t. 0 \<le> 2 * pi * f * x \<and> 2 * pi * f * x \<le> 2 ^ 1023"
  shows "\<exists>gen. waveGens s = Some gen \<and> g f t = map Val (gen f t)"
proof -
  have p: "phase_f64 f x = Some (2 * pi * f * x)" if "x \<in> set t" for x
  proof -
    have "0 \<le> 2 * pi * f * x" and "2 * pi * f * x \<le> 2 ^ 1023" using ph that by blast+
    then have "\<bar>2 * pi * f * x\<bar> \<le> 2 ^ 1023" by (simp only: abs_of_nonneg)
    with c show ?thesis by (rule phase_f64_in_range)
  qed
  have nn: "0 \<le> 2 * pi * f * x" if "x \<in> set t" for x using ph that by blast
  have cong: "map h t = map Val (map k (map (\<lambda>x. 2 * pi * f * x) t))"
    if "\<And>p. 0 \<le> p \<Longrightarrow> h' (Some p) = Val (k p)" and "h = (\<lambda>x. h' (phase_f64 f x))"
    for h h' k
  proof -
    have "h x = Val (k (2 * pi * f * x))" if "x \<in> set t" for x
      using p [OF that] nn [OF that] \<open>h = (\<lambda>x. h' (phase_f64 f x))\<close>
        \<open>\<And>p. 0 \<le> p \<Longrightarrow> h' (Some p) = Val (k p)\<close> by simp
    then show ?thesis by (induction t) simp_all
  qed
  from waveGens_f64_Some [OF g] show ?thesis
  proof (elim disjE conjE)
    assume "s = ''sine''" "g = genSine_f64"
    moreover have "genSine_f64 f t = map Val (map sin (map (\<lambda>x. 2 * pi * f * x) t))"
      unfolding genSine_f64_def by (rule cong [where h' = sin_f64]) (simp_all add: sin_f64_in_range)
    ultimately show ?thesis
      by (simp add: waveGens_simps genSine_def comp_def)
  next
    assume "s = ''sawtooth''" "g = genSawtooth_f64"
    moreover have "genSawtooth_f64 f t =
        map Val (map (sawtooth_at 1) (map (\<lambda>x. 2 * pi * f * x) t))"
      unfolding genSawtooth_f64_def
      by (rule cong [where h' = "sawtooth_f64_at 1"]) (simp_all add: sawtooth_f64_1_in_range)
    ultimately show ?thesis
      by (simp add: waveGens_simps genSawtooth_def sawtooth_def)
  next
    assume "s = ''square''" "g = genSquare_f64"
    moreover have "genSquare_f64 f t =
        map Val (map (square_at 0.5) (map (\<lambda>x. 2 * pi * f * x) t))"
      unfolding genSquare_f64_def
      by (rule cong [where h' = "square_f64_at 0.5"]) (simp_all add: square_f64_in_range)
    ultimately show ?thesis
      by (simp add: waveGens_simps genSquare_def square_def)
  next
    assume "s = ''triangle''" "g = genTriangle_f64"
    moreover have "genTriangle_f64 f t =
        map Val (map (sawtooth_at 0.5) (map (\<lambda>x. 2 * pi * f * x) t))"
      unfolding genTriangle_f64_def
      by (rule cong [where h' = "sawtooth_f64_at 0.5"], erule sawtooth_f64_half_in_range, rule refl)
    ultimately show ?thesis
      by (simp add: waveGens_simps genTriangle_def sawtooth_def)
  qed
qed

lemma unit_times_amplitude:
  fixes u a :: real
  assumes "- 1 \<le> u \<and> u \<le> 1"
  shows "- \<bar>a\<bar> \<le> u * a \<and> u * a \<le> \<bar>a\<bar>"
proof -
  have "\<bar>u\<bar> \<le> 1" using assms by (simp add: abs_le_iff)
  then have "\<bar>u\<bar> * \<bar>a\<bar> \<le> 1 * \<bar>a\<bar>"
    by (intro mult_right_mono) simp_all
  then have "\<bar>u * a\<bar> \<le> \<bar>a\<bar>" by (simp add: abs_mult)
  then show ?thesis by linarith
qed

text \<open>
  Claim C7 as stated fails: for a sine wave of frequency \<open>10^308\<close> Hz the factor
  \<^verbatim>\<open>2*np.pi*freq\<close> overflows, and all 44100 samples of one second are NaN, which lies in
  no interval.
\<close>

theorem gen_wave_f64_overflow_counterexample:
  "gen_wave_f64 \<lparr>shape = ''sine'', duration = 1, freq = 10 ^ 308, amplitude = 1\<rparr> 44100
     = Inr (replicate 44100 NaN)"
proof -
  define F :: real where "F = 10 ^ 308"
  have F0: "0 \<le> F" unfolding F_def by simp
  have "(2::real) ^ 1024 - 2 ^ 970 \<le> 2 * 2 * F" unfolding F_def by simp
  also have "\<dots> \<le> 2 * pi * F"
    using pi_ge_two F0 by (intro mult_right_mono mult_left_mono) simp_all
  also have "\<dots> \<le> \<bar>2 * pi * F\<bar>" by (rule abs_ge_self)
  finally have "f64_overflow (2 * pi * F)" unfolding f64_overflow_def .
  then have ph: "phase_f64 F x = None" for x
    by (simp add: phase_f64_def Let_def)
  have gen: "genSine_f64 F t = replicate (length t) NaN" for t
    by (simp add: genSine_f64_def ph sin_f64_def map_replicate_const)
  have "gen_wave_f64 \<lparr>shape = ''sine'', duration = 1, freq = F, amplitude = 1\<rparr> 44100
     = Inr (replicate 44100 NaN)"
    using time_axis [of 1 44100]
    by (simp add: gen_wave_f64_def waveGens_f64_def gen multiply_f64_def)
  then show ?thesis unfolding F_def .
qed

text \<open>
  Claim C7, amended. For a positive rate, a finite amplitude \<open>A\<close> (a real number), a
  frequency that is not negative, and a phase \<open>2 * pi * freq * duration\<close> below
  \<open>2^1023\<close>, whenever \<^verbatim>\<open>gen_wave\<close> returns a buffer the
  shape is one of the four, no sample is NaN, the buffer is the output of the shape's
  generator over the real numbers multiplied elementwise by \<open>A\<close>, every
  value of the generator lies between -1 and 1, and so every sample lies between
  \<open>-\<bar>A\<bar>\<close> and \<open>\<bar>A\<bar>\<close>.
\<close>

theorem gen_wave_f64_within_amplitude:
  assumes run: "gen_wave_f64 w r = Inr buf"
    and r: "0 < r"
    and f: "0 \<le> freq w"
    and range: "2 * pi * freq w * real_of_int (duration w) < 2 ^ 1023"
  shows "shape w \<in> {''sine'', ''sawtooth'', ''square'', ''triangle''} \<and>
         (\<exists>gen t. waveGens (shape w) = Some gen \<and>
            linspace 0 (real_of_int (duration w)) (duration w * r) = Inr t \<and>
            gen_wave w r = Inr (map (\<lambda>x. x * amplitude w) (gen (freq w) t)) \<and>
            buf = map (\<lambda>x. Val (x * amplitude w)) (gen (freq w) t) \<and>
            (\<forall>u \<in> set (gen (freq w) t). - 1 \<le> u \<and> u \<le> 1)) \<and>
         (\<forall>s \<in> set buf. \<exists>x. s = Val x \<and> - \<bar>amplitude w\<bar> \<le> x \<and> x \<le> \<bar>amplitude w\<bar>)"
proof -
  from run obtain t g where
    t: "linspace 0 (real_of_int (duration w)) (duration w * r) = Inr t" and
    g: "waveGens_f64 (shape w) = Some g" and
    b: "buf = map (\<lambda>s. multiply_f64 s (amplitude w)) (g (freq w) t)"
    by (auto simp: gen_wave_f64_def split: sum.splits option.splits)
  define c where "c = 2 * pi * freq w"
  have c0: "0 \<le> c" using f by (simp add: c_def)
  have cD: "c * real_of_int (duration w) < 2 ^ 1023" unfolding c_def by (rule range)
  have ph: "\<forall>x \<in> set t. 0 \<le> 2 * pi * freq w * x \<and> 2 * pi * freq w * x \<le> 2 ^ 1023"
  proof
    fix x assume "x \<in> set t"
    then have x: "0 \<le> x" "x < real_of_int (duration w)"
      using time_axis_range [OF t r] by simp_all
    have "x \<le> real_of_int (duration w)" using x(2) by (rule less_imp_le)
    then have "c * x \<le> c * real_of_int (duration w)"
      using c0 by (rule mult_left_mono)
    then have "c * x < 2 ^ 1023" using cD by (rule le_less_trans)
    then have "c * x \<le> 2 ^ 1023" by (rule less_imp_le)
    moreover have "0 \<le> c * x" using c0 x(1) by (rule mult_nonneg_nonneg)
    ultimately show "0 \<le> 2 * pi * freq w * x \<and> 2 * pi * freq w * x \<le> 2 ^ 1023"
      unfolding c_def by (rule conjI [rotated])
  qed
  have "\<exists>gen. waveGens (shape w) = Some gen \<and> g (freq w) t = map Val (gen (freq w) t)"
  proof (cases "t = []")
    case True
    from waveGens_f64_Some [OF g] show ?thesis
      by (auto simp: True waveGens_simps genSine_f64_def genSawtooth_f64_def genSquare_f64_def
            genTriangle_f64_def genSine_def genSawtooth_def genSquare_def genTriangle_def
            sawtooth_def square_def)
  next
    case False
    then obtain x where "x \<in> set t" by (cases t) auto
    then have "1 \<le> duration w" using time_axis_range [OF t r] by simp
    then have "1 \<le> real_of_int (duration w)" by simp
    then have "c * 1 \<le> c * real_of_int (duration w)"
      using c0 by (rule mult_left_mono)
    then have "c * 1 < 2 ^ 1023" using cD by (rule le_less_trans)
    then have "c \<le> 2 ^ 1023" by (simp only: mult_1_right less_imp_le)
    then have "\<bar>c\<bar> \<le> 2 ^ 1023" using c0 by (simp only: abs_of_nonneg)
    then have "\<bar>2 * pi * freq w\<bar> \<le> 2 ^ 1023" unfolding c_def .
    with g show ?thesis using ph by (rule gens_f64_in_range)
  qed
  then obtain gen where gen: "waveGens (shape w) = Some gen"
    and eq: "g (freq w) t = map Val (gen (freq w) t)" by blast
  have mem: "gen \<in> {genSine, genSawtooth, genSquare, genTriangle}"
    and sh: "shape w \<in> {''sine'', ''sawtooth'', ''square'', ''triangle''}"
    using waveGens_Some [OF gen] by simp_all
  have unit: "\<forall>u \<in> set (gen (freq w) t). - 1 \<le> u \<and> u \<le> 1"
    using gen_range [OF mem] by blast
  have buf: "buf = map (\<lambda>x. Val (x * amplitude w)) (gen (freq w) t)"
    by (simp add: b eq multiply_f64_def)
  have ideal: "gen_wave w r = Inr (map (\<lambda>x. x * amplitude w) (gen (freq w) t))"
    by (simp add: gen_wave_def t gen)
  have bound: "\<forall>s \<in> set buf. \<exists>x. s = Val x \<and> - \<bar>amplitude w\<bar> \<le> x \<and> x \<le> \<bar>amplitude w\<bar>"
  proof
    fix s assume "s \<in> set buf"
    then obtain u where u: "u \<in> set (gen (freq w) t)" and s: "s = Val (u * amplitude w)"
      unfolding buf by auto
    have "- \<bar>amplitude w\<bar> \<le> u * amplitude w \<and> u * amplitude w \<le> \<bar>amplitude w\<bar>"
      using unit u by (intro unit_times_amplitude) blast
    then show "\<exists>x. s = Val x \<and> - \<bar>amplitude w\<bar> \<le> x \<and> x \<le> \<bar>amplitude w\<bar>"
      using s by blast
  qed
  show ?thesis using sh gen t ideal buf unit bound by blast
qed


text \<open>
  One second of a triangle wave of 440 Hz and amplitude -2: 44100 samples, all numbers
  between -2 and 2.
\<close>

theorem gen_wave_f64_within_amplitude_witness:
  "\<exists>buf. gen_wave_f64 \<lparr>shape = ''triangle'', duration = 1, freq = 440, amplitude = - 2\<rparr> 44100
            = Inr buf \<and>
     length buf = 44100 \<and> (\<forall>s \<in> set buf. \<exists>x. s = Val x \<and> - 2 \<le> x \<and> x \<le> 2)"
proof -
  let ?w = "\<lparr>shape = ''triangle'', duration = 1, freq = 440, amplitude = - 2\<rparr>"
  let ?buf = "map (\<lambda>s. multiply_f64 s (- 2))
                (genTriangle_f64 440 (map (\<lambda>k. real k / real_of_int 44100) [0..<nat (1 * 44100)]))"
  have run: "gen_wave_f64 ?w 44100 = Inr ?buf"
    using time_axis [of 1 44100] by (simp add: gen_wave_f64_def waveGens_f64_def)
  have len: "length ?buf = 44100"
    by (simp add: genTriangle_f64_def)
  have "2 * pi * 440 * 1 \<le> 2 * 4 * 440 * (1::real)"
    using pi_less_4 by simp
  also have "\<dots> < 2 ^ 1023" by simp
  finally have range: "2 * pi * freq ?w * real_of_int (duration ?w) < 2 ^ 1023" by simp
  have "\<forall>s \<in> set ?buf. \<exists>x. s = Val x \<and> - \<bar>amplitude ?w\<bar> \<le> x \<and> x \<le> \<bar>amplitude ?w\<bar>"
    using gen_wave_f64_within_amplitude [OF run _ _ range] by simp
  then have "\<forall>s \<in> set ?buf. \<exists>x. s = Val x \<and> - 2 \<le> x \<and> x \<le> 2" by simp
  then show ?thesis using run len by blast
qed


text \<open>
  A sawtooth at a tiny negative phase: the remainder rounds to \<^verbatim>\<open>2*pi\<close> and the sample
  is NaN. (The amended claim asks for a frequency that is not negative.)
\<close>

lemma sawtooth_f64_tiny_negative_phase: "sawtooth_f64_at 1 (Some (- (1 / 2 ^ 60))) = NaN"
proof -
  define e :: real where "e = 1 / 2 ^ 60"
  have e: "0 < e" "e \<le> 1 / 2 ^ 51" "e < 2 * pi"
    using pi_ge_two by (simp_all add: e_def)
  have "- 1 \<le> - e / (2 * pi)" using e by (simp add: field_simps)
  moreover have "- e / (2 * pi) < 0" using e by simp
  ultimately have "\<lfloor>- e / (2 * pi)\<rfloor> = - 1" by (simp add: floor_eq_iff)
  then have m: "np_mod (- e) (2 * pi) = 2 * pi - e" by (simp add: np_mod_def)
  have "mod_f64 (- e) = 2 * pi" using e by (simp add: mod_f64_def m Let_def)
  then have "sawtooth_f64_at 1 (Some (- e)) = NaN" by (simp add: sawtooth_f64_at_def Let_def)
  then show ?thesis unfolding e_def .
qed

text \<open>
  Claim C8. Rendering a wave whose shape is not one of the four always fails; the
  exception is the \<^verbatim>\<open>KeyError\<close> of the failed lookup whenever \<open>duration * rate\<close> is
  not negative, so for every positive duration and rate (a negative product raises
  \<^verbatim>\<open>ValueError\<close> from the time axis first). Rendering a wave of one of the four shapes
  never raises \<^verbatim>\<open>KeyError\<close>.
\<close>

theorem gen_wave_unknown_shape:
  "(shape w \<notin> {''sine'', ''sawtooth'', ''square'', ''triangle''} \<longrightarrow>
      (\<exists>e. gen_wave w r = Inl e) \<and>
      (0 \<le> duration w * r \<longrightarrow> gen_wave w r = Inl (KeyError (shape w)))) \<and>
   (shape w \<in> {''sine'', ''sawtooth'', ''square'', ''triangle''} \<longrightarrow>
      (\<forall>s. gen_wave w r \<noteq> Inl (KeyError s)))"
proof (intro conjI impI allI)
  assume u: "shape w \<notin> {''sine'', ''sawtooth'', ''square'', ''triangle''}"
  show "\<exists>e. gen_wave w r = Inl e"
    using waveGens_None [OF u] by (simp add: gen_wave_def split: sum.splits)
  show "gen_wave w r = Inl (KeyError (shape w))" if "0 \<le> duration w * r"
    using waveGens_None [OF u] that by (simp add: gen_wave_def linspace_ok)
next
  fix s
  assume k: "shape w \<in> {''sine'', ''sawtooth'', ''square'', ''triangle''}"
  then obtain gen where "waveGens (shape w) = Some gen"
    by (auto simp: waveGens_simps)
  then show "gen_wave w r \<noteq> Inl (KeyError s)"
    by (auto simp: gen_wave_def linspace_def Let_def split: sum.splits if_splits)
qed

text \<open>
  An unknown shape and a known one, two seconds at 44100 samples a second.
\<close>

theorem gen_wave_unknown_shape_witness:
  "gen_wave \<lparr>shape = ''noise'', duration = 2, freq = 440, amplitude = 1\<rparr> 44100
     = Inl (KeyError ''noise'') \<and>
   gen_wave \<lparr>shape = ''square'', duration = 2, freq = 440, amplitude = 1\<rparr> 44100
     \<noteq> Inl (KeyError ''square'')"
  using gen_wave_unknown_shape [of "\<lparr>shape = ''noise'', duration = 2, freq = 440, amplitude = 1\<rparr>" 44100]
        gen_wave_unknown_shape [of "\<lparr>shape = ''square'', duration = 2, freq = 440, amplitude = 1\<rparr>" 44100]
  by simp

subsection \<open>The spectrum\<close>

lemma dft_coeff_scale: "dft_coeff (map (\<lambda>x. x / c) a) k = dft_coeff a k / complex_of_real c"
  by (simp add: dft_coeff_def sum_divide_distrib)

lemma rfftfreq_ok:
  "0 < n \<Longrightarrow> r \<noteq> 0 \<Longrightarrow>
   rfftfreq n (1 / real_of_int r) = Inr (map (\<lambda>k. real k * (real_of_int r / real n)) [0..<n div 2 + 1])"
  by (simp add: rfftfreq_def Let_def)

lemma get_fft_ok:
  assumes "sound \<noteq> []" "r \<noteq> 0"
  shows "get_fft r sound =
    Inr (map (\<lambda>k. real k * (real_of_int r / real (length sound))) [0..<length sound div 2 + 1],
         map (\<lambda>k. cmod (dft_coeff sound k) / 2 ^ 31) [0..<length sound div 2 + 1])"
  using assms
  by (simp add: get_fft_def Let_def rfft_def rfftfreq_ok dft_coeff_scale norm_divide)

lemma get_fft_empty: "r \<noteq> 0 \<Longrightarrow> get_fft r [] = Inl ValueError"
  by (simp add: get_fft_def rfft_def)



lemma freq_bins_nth:
  "k < n div 2 + 1 \<Longrightarrow> map (\<lambda>k. real k * c) [0..<n div 2 + 1] ! k = real k * c"
  by (simp only: nth_map_upt) simp

lemma half_bounds:
  fixes n :: nat
  shows "2 * real (n div 2) \<le> real n" "real n \<le> 2 * real (n div 2) + 1"
proof -
  have "2 * (n div 2) \<le> n" by presburger
  then have "real (2 * (n div 2)) \<le> real n" by (simp only: of_nat_le_iff)
  then show "2 * real (n div 2) \<le> real n" by simp
  have "n \<le> 2 * (n div 2) + 1" by presburger
  then have "real n \<le> real (2 * (n div 2) + 1)" by (simp only: of_nat_le_iff)
  then show "real n \<le> 2 * real (n div 2) + 1" by simp
qed

lemma last_bin_bounds:
  fixes n :: nat and r :: real
  assumes "0 < n" "0 < r"
  shows "real (n div 2) * (r / real n) \<le> r / 2"
    and "r / 2 - r / (2 * real n) \<le> real (n div 2) * (r / real n)"
proof -
  have n: "0 < real n" using assms(1) by simp
  have "real (n div 2) * (r / real n) = (2 * real (n div 2)) * (r / (2 * real n))"
    by simp
  also have "\<dots> \<le> real n * (r / (2 * real n))"
    using half_bounds(1) [of n] assms n by (intro mult_right_mono) simp_all
  also have "\<dots> = r / 2" using n by simp
  finally show "real (n div 2) * (r / real n) \<le> r / 2" .
  have "r / 2 - r / (2 * real n) = (real n - 1) * (r / (2 * real n))"
    using n by (simp add: field_simps)
  also have "\<dots> \<le> (2 * real (n div 2)) * (r / (2 * real n))"
    using half_bounds(2) [of n] assms n by (intro mult_right_mono) simp_all
  also have "\<dots> = real (n div 2) * (r / real n)" by simp
  finally show "r / 2 - r / (2 * real n) \<le> real (n div 2) * (r / real n)" .
qed


text \<open>
  Claim C5. For a buffer of \<open>N \<ge> 1\<close> samples and a rate \<open>R > 0\<close>, \<^verbatim>\<open>get_fft\<close> returns
  \<open>N div 2 + 1\<close> frequencies and as many magnitudes. The frequencies start at 0, are not
  negative, increase strictly in steps of \<open>R / N\<close>, and the last one,
  \<open>(N div 2) * R / N\<close>, lies between \<open>R/2 - R/(2N)\<close> and \<open>R/2\<close>.
\<close>

theorem get_fft_frequency_bins:
  assumes "buffer \<noteq> []" and "0 < r"
  shows "\<exists>fr mag.
           get_fft r buffer = Inr (fr, mag) \<and>
           length fr = length buffer div 2 + 1 \<and>
           length mag = length fr \<and>
           fr ! 0 = 0 \<and>
           (\<forall>k < length fr. 0 \<le> fr ! k) \<and>
           (\<forall>k. k + 1 < length fr \<longrightarrow>
                 fr ! k < fr ! (k + 1) \<and>
                 fr ! (k + 1) - fr ! k = real_of_int r / real (length buffer)) \<and>
           last fr = real (length buffer div 2) * (real_of_int r / real (length buffer)) \<and>
           real_of_int r / 2 - real_of_int r / (2 * real (length buffer)) \<le> last fr \<and>
           last fr \<le> real_of_int r / 2"
proof -
  define n where "n = length buffer"
  define c where "c = real_of_int r / real n"
  define fr where "fr = map (\<lambda>k. real k * c) [0..<n div 2 + 1]"
  define mag where "mag = map (\<lambda>k. cmod (dft_coeff buffer k) / 2 ^ 31) [0..<n div 2 + 1]"
  have n: "0 < n" using assms(1) by (simp add: n_def)
  have r: "0 < real_of_int r" using assms(2) by simp
  have c: "0 < c" using r n by (simp add: c_def)
  have "r \<noteq> 0" using assms(2) by simp
  then have run: "get_fft r buffer = Inr (fr, mag)"
    unfolding fr_def mag_def c_def n_def using assms(1) by (rule get_fft_ok [rotated])
  have len: "length fr = n div 2 + 1" by (simp add: fr_def)
  have len2: "length mag = length fr" by (simp add: fr_def mag_def)
  have nth: "fr ! k = real k * c" if "k < n div 2 + 1" for k
    unfolding fr_def using that by (rule freq_bins_nth)
  have zero: "fr ! 0 = 0" using nth [of 0] by simp
  have nonneg: "\<forall>k < length fr. 0 \<le> fr ! k"
  proof (intro allI impI)
    fix k assume "k < length fr"
    then have "fr ! k = real k * c" using nth len by simp
    then show "0 \<le> fr ! k" using c by simp
  qed
  have step: "\<forall>k. k + 1 < length fr \<longrightarrow> fr ! k < fr ! (k + 1) \<and> fr ! (k + 1) - fr ! k = c"
  proof (intro allI impI)
    fix k assume k: "k + 1 < length fr"
    have "fr ! k = real k * c" using nth [of k] k len by simp
    moreover have "fr ! (k + 1) = (real k + 1) * c" using nth [of "k + 1"] k len by simp
    ultimately show "fr ! k < fr ! (k + 1) \<and> fr ! (k + 1) - fr ! k = c"
      using c by (simp add: algebra_simps)
  qed
  have "fr \<noteq> []" using len by auto
  then have "last fr = fr ! (n div 2)"
    using len by (simp add: last_conv_nth)
  then have lst: "last fr = real (n div 2) * c" using nth [of "n div 2"] by simp
  have hi: "last fr \<le> real_of_int r / 2"
    unfolding lst c_def using n r by (rule last_bin_bounds(1))
  have lo: "real_of_int r / 2 - real_of_int r / (2 * real n) \<le> last fr"
    unfolding lst c_def using n r by (rule last_bin_bounds(2))
  show ?thesis
    apply (rule exI [of _ fr], rule exI [of _ mag])
    using run len len2 zero nonneg step lst hi lo unfolding c_def n_def
    apply (intro conjI)
    apply assumption+
    done
qed


text \<open>
  Four samples at 44100 samples a second: three bins, from 0 to 22050.
\<close>

theorem get_fft_frequency_bins_witness:
  "map_sum id (\<lambda>(fr, mag). (length fr, length mag, fr ! 0, last fr)) (get_fft 44100 [1, 0, - 1, 0])
     = Inr (3, 3, 0, 22050)"
proof -
  from get_fft_frequency_bins [of "[1, 0, - 1, 0]" 44100]
  obtain fr mag where "get_fft 44100 [1, 0, - 1, 0] = Inr (fr, mag)"
    "length fr = 3" "length mag = length fr" "fr ! 0 = 0" "last fr = 22050"
    by auto
  then show ?thesis by simp
qed

text \<open>
  Claim C6. Whenever \<^verbatim>\<open>get_fft\<close> returns, magnitude \<open>k\<close> is the absolute value of the
  coefficient \<open>k\<close> of the discrete Fourier transform of the buffer as it is (every sample
  with weight 1, over the buffer's own length), divided by \<open>2^31\<close>, for \<open>k\<close> from 0 to
  \<open>N div 2\<close>; and every other non-zero sample rate gives the same magnitudes.
\<close>

theorem get_fft_magnitudes:
  assumes "get_fft r buffer = Inr (fr, mag)"
  shows "mag = map (\<lambda>k. cmod (\<Sum>m<length buffer. complex_of_real (buffer ! m) *
                               cis (- (2 * pi * real m * real k / real (length buffer)))) / 2 ^ 31)
                 [0..<length buffer div 2 + 1] \<and>
         (\<forall>r'. r' \<noteq> 0 \<longrightarrow> map_sum id snd (get_fft r' buffer) = Inr mag)"
proof -
  have r: "r \<noteq> 0" and b: "buffer \<noteq> []"
    using assms by (auto simp: get_fft_def rfft_def Let_def split: if_splits)
  have "mag = map (\<lambda>k. cmod (dft_coeff buffer k) / 2 ^ 31) [0..<length buffer div 2 + 1]"
    using assms get_fft_ok [OF b r] by simp
  moreover have "map_sum id snd (get_fft r' buffer) =
      Inr (map (\<lambda>k. cmod (dft_coeff buffer k) / 2 ^ 31) [0..<length buffer div 2 + 1])"
    if "r' \<noteq> 0" for r'
    using get_fft_ok [OF b that] by simp
  ultimately show ?thesis by (simp add: dft_coeff_def)
qed

text \<open>
  The buffer of the two samples \<open>2^31\<close> and 0: both magnitudes are 1.
\<close>

theorem get_fft_magnitudes_witness:
  "get_fft 44100 [2 ^ 31, 0] = Inr ([0, 22050], [1, 1])"
proof -
  have run: "get_fft 44100 [2 ^ 31, 0] =
      Inr (map (\<lambda>k. real k * (real_of_int 44100 / real (length [2 ^ 31, 0::real])))
             [0..<length [2 ^ 31, 0::real] div 2 + 1],
           map (\<lambda>k. cmod (dft_coeff [2 ^ 31, 0] k) / 2 ^ 31)
             [0..<length [2 ^ 31, 0::real] div 2 + 1])"
    by (rule get_fft_ok) simp_all
  have up: "[0..<2] = [0, 1]" by (simp add: upt_rec)
  have lt: "{..<2::nat} = {0, 1}" by auto
  show ?thesis
    using get_fft_magnitudes [OF run] unfolding run
    by (simp add: up lt)
qed

subsection \<open>The wave state\<close>

lemma update_plot_empty: "wave_objects s = [] \<Longrightarrow> update_plot s = Inr (s, None)"
  by (simp add: update_plot_def)

lemma update_plot_frame:
  assumes "update_plot s = Inr (s', out)"
  shows "max_dur s' = max_dur s \<and> wave_objects s' = wave_objects s \<and>
         rate s' = rate s \<and> plot_all s' = plot_all s"
  using assms by (auto simp: update_plot_def split: if_splits sum.splits prod.splits)

lemma then_update_plot_fields:
  "max_dur (fst (then_update_plot s)) = max_dur s"
  "wave_objects (fst (then_update_plot s)) = wave_objects s"
  "rate (fst (then_update_plot s)) = rate s"
  "plot_all (fst (then_update_plot s)) = plot_all s"
  using update_plot_frame [of s]
  by (auto simp: then_update_plot_def split: sum.splits prod.splits)

lemma addWave_fields:
  "max_dur (fst (addWave s (Some (f, d, sh, a)))) = max (max_dur s) d"
  "wave_objects (fst (addWave s (Some (f, d, sh, a)))) =
     wave_objects s @ [\<lparr>shape = sh, duration = d, freq = f, amplitude = a\<rparr>]"
  "rate (fst (addWave s (Some (f, d, sh, a)))) = rate s"
  "plot_all (fst (addWave s (Some (f, d, sh, a)))) = plot_all s"
  by (simp_all add: addWave_def Let_def then_update_plot_fields)

lemma addWave_None: "addWave s None = (s, Inr None)"
  by (simp add: addWave_def)

lemma clear_wave_files_fields:
  "max_dur (fst (clear_wave_files s)) = max_dur s"
  "wave_objects (fst (clear_wave_files s)) = []"
  "rate (fst (clear_wave_files s)) = rate s"
  "plot_all (fst (clear_wave_files s)) = plot_all s"
  by (simp_all add: clear_wave_files_def then_update_plot_fields)

lemma plot_all_toggle_fields:
  "max_dur (fst (plot_all_toggle s c)) = max_dur s"
  "wave_objects (fst (plot_all_toggle s c)) = wave_objects s"
  "rate (fst (plot_all_toggle s c)) = rate s"
  "plot_all (fst (plot_all_toggle s c)) = c"
  by (simp_all add: plot_all_toggle_def then_update_plot_fields)

lemma handle_max_dur:
  "max_dur (fst (handle s a)) = foldl max (max_dur s) (added_durations [a])"
proof (cases a)
  case (AddWave inputs)
  then show ?thesis
    by (cases inputs) (auto simp: addWave_None addWave_fields)
qed (simp_all add: clear_wave_files_fields plot_all_toggle_fields)

lemma handle_max_dur_mono: "max_dur s \<le> max_dur (fst (handle s a))"
proof (cases a)
  case (AddWave inputs)
  then show ?thesis
    by (cases inputs) (auto simp: addWave_None addWave_fields)
qed (simp_all add: clear_wave_files_fields plot_all_toggle_fields)

lemma handle_rate: "rate (fst (handle s a)) = rate s"
proof (cases a)
  case (AddWave inputs)
  then show ?thesis
    by (cases inputs) (auto simp: addWave_None addWave_fields)
qed (simp_all add: clear_wave_files_fields plot_all_toggle_fields)

lemma handle_durations:
  "set (map duration (wave_objects (fst (handle s a)))) \<subseteq>
     set (map duration (wave_objects s)) \<union> set (added_durations [a])"
proof (cases a)
  case (AddWave inputs)
  then show ?thesis
    by (cases inputs) (auto simp: addWave_None addWave_fields)
qed (simp_all add: clear_wave_files_fields plot_all_toggle_fields)

lemma added_durations_append:
  "added_durations (xs @ ys) = added_durations xs @ added_durations ys"
  by (induction xs rule: added_durations.induct) simp_all

lemma session_Nil: "session [] = init_layout"
  by (simp add: session_def)

lemma session_snoc: "session (acts @ [a]) = fst (handle (session acts) a)"
  by (simp add: session_def)

lemma session_max_dur_foldl: "max_dur (session acts) = foldl max 3 (added_durations acts)"
proof (induction acts rule: rev_induct)
  case Nil
  show ?case by (simp add: session_Nil init_layout_def)
next
  case (snoc a acts)
  show ?case
    by (simp only: session_snoc handle_max_dur snoc added_durations_append foldl_append)
qed

lemma foldl_max_Max: "foldl max (m::int) xs = Max (insert m (set xs))"
proof (induction xs arbitrary: m)
  case Nil
  show ?case by simp
next
  case (Cons x xs)
  have "Max (insert (max m x) (set xs)) = Max (insert m (insert x (set xs)))"
    by (cases "set xs = {}") (simp_all add: max.assoc max.commute)
  then show ?case by (simp add: Cons)
qed

lemma session_rate: "rate (session acts) = 44100"
proof (induction acts rule: rev_induct)
  case Nil
  show ?case by (simp add: session_Nil init_layout_def)
next
  case (snoc a acts)
  then show ?case by (simp only: session_snoc handle_rate)
qed

lemma session_durations:
  "set (map duration (wave_objects (session acts))) \<subseteq> set (added_durations acts)"
proof (induction acts rule: rev_induct)
  case Nil
  show ?case by (simp add: session_Nil init_layout_def)
next
  case (snoc a acts)
  show ?case
    using handle_durations [of "session acts" a] snoc
    unfolding session_snoc added_durations_append by auto
qed

text \<open>
  Claim C9. With no wave in the list, \<^verbatim>\<open>update_plot\<close> raises nothing, makes no buffer and
  leaves every attribute as it was.
\<close>

theorem update_plot_no_waves:
  assumes "wave_objects s = []"
  shows "update_plot s = Inr (s, None) \<and> mixed s = None"
  using assms by (simp add: update_plot_empty mixed_def)

text \<open>
  The initial state has no wave.
\<close>

theorem update_plot_no_waves_witness:
  "update_plot init_layout = Inr (init_layout, None) \<and> mixed init_layout = None"
proof -
  have "wave_objects init_layout = []" by (simp add: init_layout_def)
  then show ?thesis by (rule update_plot_no_waves)
qed

text \<open>
  Claim C10. \<^verbatim>\<open>clear_wave_files\<close> empties the list of waves and changes nothing else (its
  call of \<^verbatim>\<open>update_plot\<close> finds no wave): \<^verbatim>\<open>max_dur\<close> and \<^verbatim>\<open>rate\<close> keep their values.
\<close>

theorem clear_wave_files_keeps_max_dur:
  "clear_wave_files s = (s\<lparr>wave_objects := []\<rparr>, Inr None) \<and>
   wave_objects (fst (clear_wave_files s)) = [] \<and>
   max_dur (fst (clear_wave_files s)) = max_dur s \<and>
   rate (fst (clear_wave_files s)) = rate s"
  by (simp add: clear_wave_files_def then_update_plot_def update_plot_empty)





subsection \<open>Mixing\<close>

lemma iadd_same_length: "length current = length fv \<Longrightarrow> iadd fv current = Inr (map2 (+) fv current)"
  by (simp add: iadd_def)

lemma accumulate_step:
  assumes g: "gen_wave w r = Inr b" and l: "length b \<le> length fv"
  shows "accumulate r pa (w # ws) (cs, fv) =
         accumulate r pa ws
           (if pa then cs @ [b @ replicate (length fv - length b) 0] else cs,
            map2 (+) fv (b @ replicate (length fv - length b) 0))"
proof -
  let ?current = "b @ replicate (length fv - length b) 0"
  have c: "(if length b < length fv then ?current else b) = ?current"
    using l by simp
  have len: "length ?current = length fv" using l by simp
  show ?thesis
    by (simp only: accumulate.simps g sum.case Let_def c len iadd_same_length [OF len])
       simp
qed

lemma accumulate_ok:
  assumes "map (\<lambda>w. gen_wave w r) ws = map Inr bufs"
    and "\<forall>b \<in> set bufs. length b \<le> n" and "length fv = n"
  shows "accumulate r pa ws (cs, fv) =
     Inr (if pa then cs @ map (\<lambda>b. b @ replicate (n - length b) 0) bufs else cs,
          foldl (\<lambda>acc b. map2 (+) acc (b @ replicate (n - length b) 0)) fv bufs)"
  using assms
proof (induction ws arbitrary: bufs cs fv)
  case Nil
  then show ?case by simp
next
  case (Cons w ws)
  from Cons.prems(1) obtain b bs where bufs: "bufs = b # bs"
    and g: "gen_wave w r = Inr b" and rest: "map (\<lambda>w. gen_wave w r) ws = map Inr bs"
    by (cases bufs) auto
  have lb: "length b \<le> length fv" and lbs: "\<forall>b \<in> set bs. length b \<le> n"
    using Cons.prems(2,3) bufs by simp_all
  let ?current = "b @ replicate (n - length b) 0"
  have len: "length (map2 (+) fv ?current) = n"
    using lb Cons.prems(3) by simp
  have "accumulate r pa (w # ws) (cs, fv) =
        accumulate r pa ws (if pa then cs @ [?current] else cs, map2 (+) fv ?current)"
    using accumulate_step [OF g lb] Cons.prems(3) by simp
  also have "\<dots> = Inr (if pa then (if pa then cs @ [?current] else cs) @
                                   map (\<lambda>b. b @ replicate (n - length b) 0) bs
                         else (if pa then cs @ [?current] else cs),
                foldl (\<lambda>acc b. map2 (+) acc (b @ replicate (n - length b) 0))
                  (map2 (+) fv ?current) bs)"
    by (rule Cons.IH [OF rest lbs len])
  finally show ?case by (simp add: bufs)
qed

lemma length_foldl_padded:
  assumes "\<forall>b \<in> set bufs. length b \<le> n" and "length fv = n"
  shows "length (foldl (\<lambda>acc b. map2 (+) acc (b @ replicate (n - length b) 0)) fv bufs) = n"
  using assms by (induction bufs arbitrary: fv) simp_all

lemma zero_axis: "map (\<lambda>x. 0 * x) (map f [0..<n]) = replicate n (0::real)"
  by (simp add: map_replicate_const)

lemma mixed_ok:
  assumes ws: "wave_objects s \<noteq> []" and r: "0 < rate s" and m: "0 < max_dur s"
    and gens: "map (\<lambda>w. gen_wave w (rate s)) (wave_objects s) = map Inr bufs"
    and lens: "\<forall>b \<in> set bufs. length b \<le> nat (max_dur s * rate s)"
  shows "mixed s =
     Some (foldl (\<lambda>acc b. map2 (+) acc (b @ replicate (nat (max_dur s * rate s) - length b) 0))
             (replicate (nat (max_dur s * rate s)) 0) bufs)"
proof -
  define n where "n = nat (max_dur s * rate s)"
  define fv where "fv = foldl (\<lambda>acc b. map2 (+) acc (b @ replicate (n - length b) 0)) (replicate n 0) bufs"
  have pos: "0 < max_dur s * rate s" using r m by simp
  then have n: "0 < n" by (simp add: n_def)
  have ax: "linspace 0 (real_of_int (max_dur s)) (max_dur s * rate s) =
      Inr (map (\<lambda>k. real k * ((real_of_int (max_dur s) - 0) / real_of_int (max_dur s * rate s)) + 0) [0..<n])"
    unfolding n_def using pos by (intro linspace_ok) simp
  have acc: "accumulate (rate s) (plot_all s) (wave_objects s) ([], replicate n 0) =
      Inr (if plot_all s then [] @ map (\<lambda>b. b @ replicate (n - length b) 0) bufs else [], fv)"
    unfolding fv_def using lens by (intro accumulate_ok [OF gens]) (simp_all add: n_def)
  have "length fv = n"
    unfolding fv_def using lens by (intro length_foldl_padded) (simp_all add: n_def)
  then have ne: "fv \<noteq> []" using n by auto
  have r0: "rate s \<noteq> 0" using r by simp
  show ?thesis
    unfolding mixed_def update_plot_def n_def [symmetric] fv_def [symmetric]
    by (simp only: ws if_False ax sum.case zero_axis acc get_fft_ok [OF ne r0] prod.case)
       simp
qed

lemma gen_wave_ok:
  assumes "shape w \<in> {''sine'', ''sawtooth'', ''square'', ''triangle''}" "0 \<le> duration w * r"
  shows "\<exists>b. gen_wave w r = Inr b \<and> length b = nat (duration w * r)"
proof -
  from assms(1) obtain gen where g: "waveGens (shape w) = Some gen"
    by (auto simp: waveGens_simps)
  show ?thesis
    using waveGens_Some [OF g] by (simp add: gen_wave_known [OF g assms(2)] length_gen)
qed

lemma render_all:
  assumes "\<forall>w \<in> set ws. shape w \<in> {''sine'', ''sawtooth'', ''square'', ''triangle''} \<and> 0 \<le> duration w"
    and "0 < r"
  shows "\<exists>bufs. map (\<lambda>w. gen_wave w r) ws = map Inr bufs \<and>
                map length bufs = map (\<lambda>w. nat (duration w * r)) ws"
  using assms(1)
proof (induction ws)
  case Nil
  show ?case by simp
next
  case (Cons w ws)
  then obtain bufs where bufs: "map (\<lambda>w. gen_wave w r) ws = map Inr bufs"
    "map length bufs = map (\<lambda>w. nat (duration w * r)) ws"
    by auto
  have "0 \<le> duration w * r" using Cons.prems assms(2) by simp
  with Cons.prems obtain b where b: "gen_wave w r = Inr b" "length b = nat (duration w * r)"
    using gen_wave_ok [of w r] by auto
  have "map (\<lambda>w. gen_wave w r) (w # ws) = map Inr (b # bufs) \<and>
        map length (b # bufs) = map (\<lambda>w. nat (duration w * r)) (w # ws)"
    using b bufs by simp
  then show ?case by blast
qed

lemma mixed_length:
  assumes ws: "wave_objects s \<noteq> []" and r: "0 < rate s" and m: "0 < max_dur s"
    and ok: "\<forall>w \<in> set (wave_objects s).
               shape w \<in> {''sine'', ''sawtooth'', ''square'', ''triangle''} \<and>
               0 \<le> duration w \<and> duration w \<le> max_dur s"
  shows "\<exists>bufs. map (\<lambda>w. gen_wave w (rate s)) (wave_objects s) = map Inr bufs \<and>
           map length bufs = map (\<lambda>w. nat (duration w * rate s)) (wave_objects s) \<and>
           (\<forall>b \<in> set bufs. length b \<le> nat (max_dur s * rate s)) \<and>
           mixed s =
             Some (foldl (\<lambda>acc b. map2 (+) acc (b @ replicate (nat (max_dur s * rate s) - length b) 0))
                     (replicate (nat (max_dur s * rate s)) 0) bufs) \<and>
           map_option length (mixed s) = Some (nat (max_dur s * rate s))"
proof -
  from render_all [of "wave_objects s" "rate s"] ok r
  obtain bufs where g: "map (\<lambda>w. gen_wave w (rate s)) (wave_objects s) = map Inr bufs"
    and l: "map length bufs = map (\<lambda>w. nat (duration w * rate s)) (wave_objects s)"
    by auto
  have lens: "\<forall>b \<in> set bufs. length b \<le> nat (max_dur s * rate s)"
  proof
    fix b assume "b \<in> set bufs"
    then have "length b \<in> set (map length bufs)" by simp
    then obtain w where w: "w \<in> set (wave_objects s)" "length b = nat (duration w * rate s)"
      unfolding l by auto
    have "duration w * rate s \<le> max_dur s * rate s"
      using ok w(1) r by (intro mult_right_mono) simp_all
    then show "length b \<le> nat (max_dur s * rate s)" using w(2) by simp
  qed
  have mx: "mixed s =
      Some (foldl (\<lambda>acc b. map2 (+) acc (b @ replicate (nat (max_dur s * rate s) - length b) 0))
              (replicate (nat (max_dur s * rate s)) 0) bufs)"
    using ws r m g lens by (rule mixed_ok)
  have "map_option length (mixed s) = Some (nat (max_dur s * rate s))"
    unfolding mx using lens by (simp add: length_foldl_padded)
  then show ?thesis using g l lens mx by blast
qed

lemma foldl_max_bounded: "\<forall>d \<in> set ds. d \<le> (m::int) \<Longrightarrow> foldl max m ds = m"
  by (induction ds) simp_all

lemma session_fields:
  "session [] = init_layout"
  "session (a # acts) = foldl (\<lambda>s a. fst (handle s a)) (fst (handle init_layout a)) acts"
  by (simp_all add: session_def)

lemmas state_simps =
  session_def init_layout_def addWave_fields addWave_None clear_wave_files_fields
  plot_all_toggle_fields

text \<open>
  Claim C4 as stated fails: after a wave of 5 seconds, a reset and a wave of 1 second,
  the only wave in the list is shorter than 3 seconds, and the aggregate buffer has
  \<open>5 * 44100\<close> samples.
\<close>

theorem mix_after_reset_counterexample:
  "list_all (\<lambda>w. duration w < 3)
     (wave_objects (session [AddWave (Some (440, 5, ''sine'', 1)), Reset,
                             AddWave (Some (440, 1, ''sine'', 1))])) \<and>
   map_option length
     (mixed (session [AddWave (Some (440, 5, ''sine'', 1)), Reset,
                      AddWave (Some (440, 1, ''sine'', 1))])) = Some (5 * 44100)"
proof -
  let ?s = "session [AddWave (Some (440, 5, ''sine'', 1)), Reset,
                     AddWave (Some (440, 1, ''sine'', 1))]"
  have w: "wave_objects ?s = [\<lparr>shape = ''sine'', duration = 1, freq = 440, amplitude = 1\<rparr>]"
    and m: "max_dur ?s = 5" and r: "rate ?s = 44100"
    by (simp_all add: state_simps)
  have "\<exists>bufs. map (\<lambda>w. gen_wave w (rate ?s)) (wave_objects ?s) = map Inr bufs \<and>
           map length bufs = map (\<lambda>w. nat (duration w * rate ?s)) (wave_objects ?s) \<and>
           (\<forall>b \<in> set bufs. length b \<le> nat (max_dur ?s * rate ?s)) \<and>
           mixed ?s =
             Some (foldl (\<lambda>acc b. map2 (+) acc (b @ replicate (nat (max_dur ?s * rate ?s) - length b) 0))
                     (replicate (nat (max_dur ?s * rate ?s)) 0) bufs) \<and>
           map_option length (mixed ?s) = Some (nat (max_dur ?s * rate ?s))"
    by (rule mixed_length) (simp_all add: w m r)
  then have "map_option length (mixed ?s) = Some (nat (max_dur ?s * rate ?s))" by blast
  then show ?thesis by (simp add: w m r)
qed


text \<open>
  Claim C4, amended. \<^verbatim>\<open>max_dur\<close> starts at 3 and is at least 3 after every session: no
  handler takes it below 3, and \<^verbatim>\<open>update_plot\<close> does not change it. When
  every wave added in the session so far (also those that a reset has removed) has a
  duration from 0 up to, but not including, 3 seconds, and the list holds at least one
  wave, all of supported shapes, then every wave renders, the aggregate buffer is the
  elementwise sum of the rendered buffers, each padded on the right with zeros to
  \<open>3 * rate\<close> samples, and it has \<open>3 * rate\<close> samples.
\<close>

theorem max_dur_floor_and_mix_length:
  "max_dur init_layout = 3 \<and>
   3 \<le> max_dur (session acts) \<and>
   (3 \<le> max_dur s \<longrightarrow> 3 \<le> max_dur (fst (handle s a))) \<and>
   (update_plot s = Inr (s', out) \<longrightarrow> max_dur s' = max_dur s) \<and>
   ((\<forall>d \<in> set (added_durations acts). 0 \<le> d \<and> d < 3) \<and>
    wave_objects (session acts) \<noteq> [] \<and>
    (\<forall>w \<in> set (wave_objects (session acts)).
        shape w \<in> {''sine'', ''sawtooth'', ''square'', ''triangle''}) \<longrightarrow>
    (\<exists>bufs. map (\<lambda>w. gen_wave w (rate (session acts))) (wave_objects (session acts)) = map Inr bufs \<and>
       (\<forall>b \<in> set bufs. length b \<le> 3 * nat (rate (session acts))) \<and>
       mixed (session acts) =
         Some (foldl (\<lambda>acc b. map2 (+) acc (b @ replicate (3 * nat (rate (session acts)) - length b) 0))
                 (replicate (3 * nat (rate (session acts))) 0) bufs) \<and>
       map_option length (mixed (session acts)) = Some (3 * nat (rate (session acts)))))"
proof (intro conjI impI)
  show "max_dur init_layout = 3" by (simp add: init_layout_def)
  have "(3::int) \<le> Max (insert 3 (set (added_durations acts)))" by simp
  then show "3 \<le> max_dur (session acts)"
    by (simp only: session_max_dur_foldl foldl_max_Max)
  show "3 \<le> max_dur (fst (handle s a))" if "3 \<le> max_dur s"
    using that handle_max_dur_mono [of s a] by simp
  show "max_dur s' = max_dur s" if "update_plot s = Inr (s', out)"
    using update_plot_frame [OF that] by simp
next
  let ?s = "session acts"
  assume h: "(\<forall>d \<in> set (added_durations acts). 0 \<le> d \<and> d < 3) \<and>
    wave_objects ?s \<noteq> [] \<and>
    (\<forall>w \<in> set (wave_objects ?s). shape w \<in> {''sine'', ''sawtooth'', ''square'', ''triangle''})"
  have "\<forall>d \<in> set (added_durations acts). d \<le> 3" using h by auto
  then have m: "max_dur ?s = 3"
    by (simp add: session_max_dur_foldl foldl_max_bounded)
  have r: "rate ?s = 44100" by (rule session_rate)
  have n: "nat (max_dur ?s * rate ?s) = 3 * nat (rate ?s)" by (simp add: m r)
  have d: "0 \<le> duration w \<and> duration w \<le> max_dur ?s" if "w \<in> set (wave_objects ?s)" for w
  proof -
    have "duration w \<in> set (map duration (wave_objects ?s))" using that by simp
    then have "duration w \<in> set (added_durations acts)" using session_durations by blast
    then show ?thesis using h m by auto
  qed
  have "\<exists>bufs. map (\<lambda>w. gen_wave w (rate ?s)) (wave_objects ?s) = map Inr bufs \<and>
           map length bufs = map (\<lambda>w. nat (duration w * rate ?s)) (wave_objects ?s) \<and>
           (\<forall>b \<in> set bufs. length b \<le> nat (max_dur ?s * rate ?s)) \<and>
           mixed ?s =
             Some (foldl (\<lambda>acc b. map2 (+) acc (b @ replicate (nat (max_dur ?s * rate ?s) - length b) 0))
                     (replicate (nat (max_dur ?s * rate ?s)) 0) bufs) \<and>
           map_option length (mixed ?s) = Some (nat (max_dur ?s * rate ?s))"
    using h d by (intro mixed_length) (simp_all add: m r)
  then show "\<exists>bufs. map (\<lambda>w. gen_wave w (rate ?s)) (wave_objects ?s) = map Inr bufs \<and>
       (\<forall>b \<in> set bufs. length b \<le> 3 * nat (rate ?s)) \<and>
       mixed ?s =
         Some (foldl (\<lambda>acc b. map2 (+) acc (b @ replicate (3 * nat (rate ?s) - length b) 0))
                 (replicate (3 * nat (rate ?s)) 0) bufs) \<and>
       map_option length (mixed ?s) = Some (3 * nat (rate ?s))"
    unfolding n by blast
qed

text \<open>
  Two waves of 2 seconds and 1 second: \<open>3 * 44100\<close> samples.
\<close>

theorem max_dur_floor_and_mix_length_witness:
  "map_option length
     (mixed (session [AddWave (Some (440, 2, ''sawtooth'', 1)), PlotAll True,
                      AddWave (Some (660, 1, ''square'', 0.5))])) = Some 132300"
proof -
  let ?acts = "[AddWave (Some (440, 2, ''sawtooth'', 1)), PlotAll True,
                AddWave (Some (660, 1, ''square'', 0.5))]"
  have a: "\<forall>d \<in> set (added_durations ?acts). 0 \<le> d \<and> d < 3" by simp
  have w: "wave_objects (session ?acts) =
      [\<lparr>shape = ''sawtooth'', duration = 2, freq = 440, amplitude = 1\<rparr>,
       \<lparr>shape = ''square'', duration = 1, freq = 660, amplitude = 0.5\<rparr>]"
    by (simp add: state_simps)
  have "map_option length (mixed (session ?acts)) = Some (3 * nat (rate (session ?acts)))"
    using max_dur_floor_and_mix_length [of ?acts init_layout Reset init_layout None] a
    by (simp only: w) auto
  then show ?thesis by (simp only: session_rate) simp
qed









end
